theory Spec2Isabelle
  imports Complex_Main "HOL-Library.Monad_Syntax"
begin

section \<open>Numbers\<close>

text \<open>
  A JavaScript \<open>number\<close> is modelled as a real: the exact arithmetic in which the
  specification states its algebraic properties (rounding of IEEE doubles is not modelled).
  Every point, camera and event of the model therefore carries finite values, as the
  specification's data model says (\<open>real-valued\<close>).

  JavaScript does not raise on a division by zero: \<open>a / 0\<close> is \<open>Infinity\<close>,
  \<open>-Infinity\<close> or \<open>NaN\<close>, none of which is a real.  A division by a value that can be zero
  is therefore written \<open>jsdiv\<close>, which answers \<open>None\<close> there; a function answers
  \<open>None\<close> exactly when some number of its JavaScript result is not finite.  (With finite
  inputs a non-finite intermediate value always reaches the result here: it is only ever
  added to, subtracted from or multiplied with finite values.)  A division by a non-zero
  constant is written with the plain \<open>/\<close> of the reals.  A run of events that reaches
  \<open>None\<close> stays there: the model does not follow the component into states that hold
  \<open>NaN\<close>.
\<close>

definition jsdiv :: "real \<Rightarrow> real \<Rightarrow> real option" where
  "jsdiv n m = (if m = 0 then None else Some (n / m))"


section \<open>The camera variant: coordinate transform\<close>

text \<open>
  \<^verbatim>\<open>type Point = { x: number; y: number };\<close>
  \<^verbatim>\<open>interface Camera { x: number; y: number; z: number }\<close>
  The component builds its first camera as \<^verbatim>\<open>{ ...ORIGIN, z: 1 }\<close>: a camera is a point
  extended by the scale \<open>z\<close>.
\<close>

record point =
  x :: real
  y :: real

record camera = point +
  z :: real

record Box =
  topLeft :: point
  bottomRight :: point
  width :: real
  height :: real

definition TOUCHPAD_ZOOM_SENS :: real where
  "TOUCHPAD_ZOOM_SENS = 200"

definition TOUCHPAD_PAN_SENS :: real where
  "TOUCHPAD_PAN_SENS = 1"

definition ORIGIN :: point where
  "ORIGIN = \<lparr>x = 0, y = 0\<rparr>"

text \<open>
  \<^verbatim>\<open>
  const screenToCanvas = (point, camera) => ({
    x: point.x / camera.z - camera.x,
    y: point.y / camera.z - camera.y
  });
  \<close>
\<close>

definition screenToCanvas :: "point \<Rightarrow> camera \<Rightarrow> point option" where
  "screenToCanvas p cam = do {
     qx \<leftarrow> jsdiv (x p) (z cam);
     qy \<leftarrow> jsdiv (y p) (z cam);
     Some \<lparr>x = qx - x cam, y = qy - y cam\<rparr>
   }"

text \<open>
  \<^verbatim>\<open>
  const canvasToScreen = (point, camera) => ({
    x: (point.x + camera.x) * camera.z,
    y: (point.y + camera.y) * camera.z
  });
  \<close>
\<close>

definition canvasToScreen :: "point \<Rightarrow> camera \<Rightarrow> point" where
  "canvasToScreen p cam = \<lparr>x = (x p + x cam) * z cam, y = (y p + y cam) * z cam\<rparr>"

definition getViewport :: "camera \<Rightarrow> Box \<Rightarrow> Box option" where
  "getViewport cam box = do {
     topLeftCanvas \<leftarrow> screenToCanvas (topLeft box) cam;
     bottomRightCanvas \<leftarrow> screenToCanvas (bottomRight box) cam;
     Some \<lparr>topLeft = topLeftCanvas,
           bottomRight = bottomRightCanvas,
           width = x bottomRightCanvas - x topLeftCanvas,
           height = y bottomRightCanvas - y topLeftCanvas\<rparr>
   }"

text \<open>
  \<^verbatim>\<open>
  const panCamera = (camera, dx, dy) => ({
    x: camera.x - dx / camera.z,
    y: camera.y - dy / camera.z,
    z: camera.z
  });
  \<close>
\<close>

definition panCamera :: "camera \<Rightarrow> real \<Rightarrow> real \<Rightarrow> camera option" where
  "panCamera cam dx dy = do {
     qx \<leftarrow> jsdiv dx (z cam);
     qy \<leftarrow> jsdiv dy (z cam);
     Some \<lparr>x = x cam - qx, y = y cam - qy, z = z cam\<rparr>
   }"

text \<open>
  \<^verbatim>\<open>
  const zoomCamera = (camera, point, dz) => {
    const zoom = camera.z - dz * camera.z;
    const p1 = screenToCanvas(point, camera);
    const p2 = screenToCanvas(point, { ...camera, z: zoom });
    return {
      x: camera.x + (p2.x - p1.x),
      y: camera.y + (p2.y - p1.y),
      z: zoom
    };
  };
  \<close>
\<close>

definition zoomCamera :: "camera \<Rightarrow> point \<Rightarrow> real \<Rightarrow> camera option" where
  "zoomCamera cam p dz =
     (let zoom = z cam - dz * z cam in do {
        p1 \<leftarrow> screenToCanvas p cam;
        p2 \<leftarrow> screenToCanvas p (cam\<lparr>z := zoom\<rparr>);
        Some \<lparr>x = x cam + (x p2 - x p1), y = y cam + (y p2 - y p1), z = zoom\<rparr>
      })"


section \<open>The camera variant: the wheel handler\<close>

text \<open>
  The component's only state is the camera, \<^verbatim>\<open>useState<Camera>({ ...ORIGIN, z: 1 })\<close>.
  The wheel listener reads \<^verbatim>\<open>clientX, clientY, deltaX, deltaY, ctrlKey\<close> from the event and
  replaces the camera through a functional update:
  \<^verbatim>\<open>
  if (ctrlKey) {
    setCamera((camera) => zoomCamera(camera, { x, y }, deltaY / TOUCHPAD_ZOOM_SENS));
  } else {
    setCamera((camera) =>
      panCamera(camera, deltaX * TOUCHPAD_PAN_SENS, deltaY * TOUCHPAD_PAN_SENS));
  }
  \<close>
  \<open>handleWheel e\<close> is that update of the camera.
\<close>

record wheelEvent =
  clientX :: real
  clientY :: real
  deltaX :: real
  deltaY :: real
  ctrlKey :: bool

definition initialCamera :: camera where
  "initialCamera = \<lparr>x = x ORIGIN, y = y ORIGIN, z = 1\<rparr>"

definition handleWheel :: "wheelEvent \<Rightarrow> camera \<Rightarrow> camera option" where
  "handleWheel e cam =
     (if ctrlKey e
      then zoomCamera cam \<lparr>x = clientX e, y = clientY e\<rparr> (deltaY e / TOUCHPAD_ZOOM_SENS)
      else panCamera cam (deltaX e * TOUCHPAD_PAN_SENS) (deltaY e * TOUCHPAD_PAN_SENS))"


section \<open>The drawing surface's transform\<close>

text \<open>
  The 2D context of the host canvas keeps a current transformation matrix, an affine map
  with the six entries of a \<open>DOMMatrix\<close> (\<open>a = m11\<close>, \<open>b = m12\<close>, \<open>c = m21\<close>, \<open>d = m22\<close>,
  \<open>e = m41\<close>, \<open>f = m42\<close>).  The context is the browser's, not this repository's; its
  operations follow the HTML Canvas standard: \<open>translate\<close> and \<open>scale\<close> multiply the
  current matrix on the right, \<open>resetTransform\<close> installs the identity, and assigning
  the canvas width or height resets the context, the matrix included.
\<close>

record matrix =
  m11 :: real
  m12 :: real
  m21 :: real
  m22 :: real
  m41 :: real
  m42 :: real

definition resetTransform :: matrix where
  "resetTransform = \<lparr>m11 = 1, m12 = 0, m21 = 0, m22 = 1, m41 = 0, m42 = 0\<rparr>"

definition ctx_translate :: "real \<Rightarrow> real \<Rightarrow> matrix \<Rightarrow> matrix" where
  "ctx_translate tx ty m =
     m\<lparr>m41 := m11 m * tx + m21 m * ty + m41 m, m42 := m12 m * tx + m22 m * ty + m42 m\<rparr>"

definition ctx_scale :: "real \<Rightarrow> real \<Rightarrow> matrix \<Rightarrow> matrix" where
  "ctx_scale sx sy m =
     m\<lparr>m11 := m11 m * sx, m12 := m12 m * sx, m21 := m21 m * sy, m22 := m22 m * sy\<rparr>"

definition transformPoint :: "matrix \<Rightarrow> point \<Rightarrow> point" where
  "transformPoint m p =
     \<lparr>x = m11 m * x p + m21 m * y p + m41 m, y = m12 m * x p + m22 m * y p + m42 m\<rparr>"

text \<open>
  The camera variant recomputes the transform from the camera on every render:
  \<^verbatim>\<open>
  context.resetTransform();
  context.clearRect(0, 0, window.innerWidth, window.innerHeight);
  context.scale(camera.z, camera.z);
  context.translate(camera.x, camera.y);
  \<close>
\<close>

definition draw :: "camera \<Rightarrow> matrix" where
  "draw cam = ctx_translate (x cam) (y cam) (ctx_scale (z cam) (z cam) resetTransform)"


section \<open>The incremental variant (Canvas.tsx)\<close>

text \<open>
  This variant keeps no camera.  Its state is the React state \<open>scale\<close>, \<open>offset\<close>,
  \<open>viewportTopLeft\<close>, \<open>mousePos\<close> and \<open>context\<close>, the refs \<open>isResetRef\<close>,
  \<open>lastOffsetRef\<close> and \<open>lastMousePosRef\<close>, and the context it draws on, whose transform
  it updates by \<open>translate\<close> and \<open>scale\<close> calls that accumulate.

  \<^item> \<open>hasContext\<close>: the state \<open>context\<close> is not \<open>null\<close>.
  \<^item> \<open>offsetIsORIGIN\<close>: the state \<open>offset\<close> holds the frozen object \<open>ORIGIN\<close> itself
    (React compares state and effect dependencies with \<open>Object.is\<close>, so a new object
    \<open>{x: 0, y: 0}\<close> counts as a change).
  \<^item> \<open>transform\<close>, \<open>canvas_width\<close>, \<open>canvas_height\<close>: the context's matrix and
    \<open>context.canvas.width\<close>, \<open>context.canvas.height\<close>.
  \<^item> \<open>isPanning\<close>: the \<open>mousemove\<close> and \<open>mouseup\<close> listeners that \<open>startPan\<close> adds to
    the document are registered.

  The environment of the component: \<open>window.devicePixelRatio\<close> (\<open>ratio\<close>, \<open>1\<close> when the
  window has none), the props, and the position of the canvas element in the page.
\<close>

record canvasState =
  hasContext :: bool
  isReset :: bool
  scale :: real
  offset :: point
  offsetIsORIGIN :: bool
  lastOffset :: point
  viewportTopLeft :: point
  mousePos :: point
  lastMousePos :: point
  transform :: matrix
  canvas_width :: real
  canvas_height :: real
  isPanning :: bool

record env =
  ratio :: real
  canvasWidth :: real
  canvasHeight :: real
  offsetLeft :: real
  offsetTop :: real

definition ZOOM_SENSITIVITY :: real where
  "ZOOM_SENSITIVITY = 500"

definition diffPoints :: "point \<Rightarrow> point \<Rightarrow> point" where
  "diffPoints p q = \<lparr>x = x p - x q, y = y p - y q\<rparr>"

definition addPoints :: "point \<Rightarrow> point \<Rightarrow> point" where
  "addPoints p q = \<lparr>x = x p + x q, y = y p + y q\<rparr>"

definition scalePoint :: "point \<Rightarrow> real \<Rightarrow> point option" where
  "scalePoint p scalar = do {
     qx \<leftarrow> jsdiv (x p) scalar;
     qy \<leftarrow> jsdiv (y p) scalar;
     Some \<lparr>x = qx, y = qy\<rparr>
   }"

text \<open>
  The state before the first effect runs: the initial values of the hooks, and the canvas
  element as rendered, \<^verbatim>\<open>width={props.canvasWidth * ratio}\<close>.
\<close>

definition initialState :: "env \<Rightarrow> canvasState" where
  "initialState en =
     \<lparr>hasContext = False, isReset = False, scale = 1, offset = ORIGIN, offsetIsORIGIN = True,
      lastOffset = ORIGIN, viewportTopLeft = ORIGIN, mousePos = ORIGIN, lastMousePos = ORIGIN,
      transform = resetTransform, canvas_width = canvasWidth en * ratio en,
      canvas_height = canvasHeight en * ratio en, isPanning = False\<rparr>"

text \<open>
  \<^verbatim>\<open>
  const reset = useCallback((context) => {
    if (context && !isResetRef.current) {
      context.canvas.width = props.canvasWidth * ratio;
      context.canvas.height = props.canvasHeight * ratio;
      context.scale(ratio, ratio);
      setScale(1);
      setContext(context);
      setOffset(ORIGIN);
      setMousePos(ORIGIN);
      setViewportTopLeft(ORIGIN);
      lastOffsetRef.current = ORIGIN;
      lastMousePosRef.current = ORIGIN;
      isResetRef.current = true;
    }
  }, [props.canvasWidth, props.canvasHeight]);
  \<close>
  Both callers pass a context that is not \<open>null\<close>.
\<close>

definition reset :: "env \<Rightarrow> canvasState \<Rightarrow> canvasState" where
  "reset en s =
     (if \<not> isReset s
      then s\<lparr>canvas_width := canvasWidth en * ratio en,
             canvas_height := canvasHeight en * ratio en,
             transform := ctx_scale (ratio en) (ratio en) resetTransform,
             scale := 1,
             hasContext := True,
             offset := ORIGIN,
             offsetIsORIGIN := True,
             mousePos := ORIGIN,
             viewportTopLeft := ORIGIN,
             lastOffset := ORIGIN,
             lastMousePos := ORIGIN,
             isReset := True\<rparr>
      else s)"

text \<open>
  The layout effect with the dependencies \<open>[context, offset, scale]\<close>:
  \<^verbatim>\<open>
  if (context && lastOffsetRef.current) {
    const offsetDiff = scalePoint(diffPoints(offset, lastOffsetRef.current), scale);
    context.translate(offsetDiff.x, offsetDiff.y);
    setViewportTopLeft((prevVal) => diffPoints(prevVal, offsetDiff));
    isResetRef.current = false;
  }
  \<close>
  and the passive effect \<^verbatim>\<open>lastOffsetRef.current = offset\<close> with the dependency
  \<open>[offset]\<close>, which React runs after the layout effects of the same render.  (The other
  layout effect redraws: it reads the transform, clears the canvas by assigning its width
  and puts the transform back, so it leaves the state as it is.)
\<close>

definition offsetEffect :: "canvasState \<Rightarrow> canvasState option" where
  "offsetEffect s =
     (if hasContext s
      then do {
        offsetDiff \<leftarrow> scalePoint (diffPoints (offset s) (lastOffset s)) (scale s);
        Some (s\<lparr>transform := ctx_translate (x offsetDiff) (y offsetDiff) (transform s),
                viewportTopLeft := diffPoints (viewportTopLeft s) offsetDiff,
                isReset := False\<rparr>)
      }
      else Some s)"

definition lastOffsetEffect :: "canvasState \<Rightarrow> canvasState" where
  "lastOffsetEffect s = s\<lparr>lastOffset := offset s\<rparr>"

text \<open>
  A call of \<open>reset\<close> with the render that follows it.  When the flag is set nothing is
  updated and nothing renders.  Otherwise the layout effect runs if one of its
  dependencies changed: \<open>context\<close> (it was \<open>null\<close>), \<open>offset\<close> (it was not the object
  \<open>ORIGIN\<close>) or \<open>scale\<close> (it was not \<open>1\<close>).  The component calls \<open>reset\<close> when it mounts
  and from the reset button, \<^verbatim>\<open>onClick={() => context && reset(context)}\<close>.
\<close>

definition resetEvent :: "env \<Rightarrow> canvasState \<Rightarrow> canvasState option" where
  "resetEvent en s =
     (if isReset s then Some s
      else if \<not> hasContext s \<or> \<not> offsetIsORIGIN s \<or> scale s \<noteq> 1
      then map_option lastOffsetEffect (offsetEffect (reset en s))
      else Some (reset en s))"

definition mount :: "env \<Rightarrow> canvasState option" where
  "mount en = resetEvent en (initialState en)"


text \<open>
  \<^verbatim>\<open>
  const mouseMove = useCallback((e) => {
    if (context !== null) {
      const lastMousePos = lastMousePosRef.current;
      const currentMousePos = { x: e.pageX, y: e.pageY };
      lastMousePosRef.current = currentMousePos;
      const mouseDiff = diffPoints(currentMousePos, lastMousePos);
      setOffset((prevOffset) => addPoints(prevOffset, mouseDiff));
    }
  }, [context]);
  const mouseUp = useCallback(() => {
    document.removeEventListener('mousemove', mouseMove);
    document.removeEventListener('mouseup', mouseUp);
  }, [mouseMove]);
  const startPan = useCallback((e) => {
    document.addEventListener('mousemove', mouseMove);
    document.addEventListener('mouseup', mouseUp);
    lastMousePosRef.current = { x: e.pageX, y: e.pageY };
  }, [mouseMove, mouseUp]);
  \<close>
\<close>

definition mouseMove :: "point \<Rightarrow> canvasState \<Rightarrow> canvasState" where
  "mouseMove currentMousePos s =
     (if hasContext s
      then let mouseDiff = diffPoints currentMousePos (lastMousePos s)
           in s\<lparr>lastMousePos := currentMousePos,
                offset := addPoints (offset s) mouseDiff,
                offsetIsORIGIN := False\<rparr>
      else s)"

definition mouseUp :: "canvasState \<Rightarrow> canvasState" where
  "mouseUp s = s\<lparr>isPanning := False\<rparr>"

definition startPan :: "point \<Rightarrow> canvasState \<Rightarrow> canvasState" where
  "startPan p s = s\<lparr>isPanning := True, lastMousePos := p\<rparr>"

text \<open>
  \<^verbatim>\<open>
  const handleUpdateMouse = (e) => {
    const viewportMousePos = { x: e.clientX, y: e.clientY };
    const topLeftCanvasPos = { x: canvasRef.current.offsetLeft, y: canvasRef.current.offsetTop };
    setMousePos(diffPoints(viewportMousePos, topLeftCanvasPos));
  };
  \<close>
\<close>

definition handleUpdateMouse :: "env \<Rightarrow> point \<Rightarrow> canvasState \<Rightarrow> canvasState" where
  "handleUpdateMouse en viewportMousePos s =
     (let topLeftCanvasPos = \<lparr>x = offsetLeft en, y = offsetTop en\<rparr>
      in s\<lparr>mousePos := diffPoints viewportMousePos topLeftCanvasPos\<rparr>)"

text \<open>
  The wheel listener of Canvas.tsx, a closure over the \<open>mousePos\<close>, \<open>scale\<close> and
  \<open>viewportTopLeft\<close> of the last render:
  \<^verbatim>\<open>
  if (context !== null) {
    const zoom = 1 - e.deltaY / ZOOM_SENSITIVITY;
    const viewportTopLeftDelta = {
      x: (mousePos.x / scale) * (1 - 1 / zoom),
      y: (mousePos.y / scale) * (1 - 1 / zoom)
    };
    const newViewportTopLeft = addPoints(viewportTopLeft, viewportTopLeftDelta);
    context.translate(viewportTopLeft.x, viewportTopLeft.y);
    context.scale(zoom, zoom);
    context.translate(-newViewportTopLeft.x, -newViewportTopLeft.y);
    setViewportTopLeft(newViewportTopLeft);
    setScale(scale * zoom);
    isResetRef.current = false;
  }
  \<close>
\<close>

definition Canvas_handleWheel :: "wheelEvent \<Rightarrow> canvasState \<Rightarrow> canvasState option" where
  "Canvas_handleWheel e s =
     (if hasContext s
      then let zoom = 1 - deltaY e / ZOOM_SENSITIVITY in do {
        qx \<leftarrow> jsdiv (x (mousePos s)) (scale s);
        qy \<leftarrow> jsdiv (y (mousePos s)) (scale s);
        r \<leftarrow> jsdiv 1 zoom;
        let viewportTopLeftDelta = \<lparr>x = qx * (1 - r), y = qy * (1 - r)\<rparr>;
            newViewportTopLeft = addPoints (viewportTopLeft s) viewportTopLeftDelta
        in Some (s\<lparr>transform :=
                     ctx_translate (- x newViewportTopLeft) (- y newViewportTopLeft)
                       (ctx_scale zoom zoom
                          (ctx_translate (x (viewportTopLeft s)) (y (viewportTopLeft s))
                             (transform s))),
                   viewportTopLeft := newViewportTopLeft,
                   scale := scale s * zoom,
                   isReset := False\<rparr>)
      }
      else Some s)"

text \<open>
  The input events of the component.  \<open>step\<close> is an event together with the render and
  the effects that it causes, for the case that React finishes them before the next event
  arrives; the schedules further down lift that restriction.

  \<^item> \<open>MouseDown p\<close>: \<open>mousedown\<close> on the canvas at page position \<open>p\<close> (\<open>startPan\<close>).
  \<^item> \<open>DocMouseMove p\<close>: \<open>mousemove\<close> reaching the document at page position \<open>p\<close>; it
    runs \<open>mouseMove\<close> while the listener is registered.  \<open>setOffset\<close> then stores a new
    object, so the layout effect and the passive effect both run.
  \<^item> \<open>DocMouseUp\<close>: \<open>mouseup\<close> reaching the document (\<open>mouseUp\<close>).
  \<^item> \<open>CanvasMouseMove p\<close>: \<open>mousemove\<close> on the canvas at client position \<open>p\<close>
    (\<open>handleUpdateMouse\<close>).
  \<^item> \<open>Wheel e\<close>: \<open>wheel\<close> on the canvas; both \<open>handleWheel\<close> and \<open>handleUpdateMouse\<close>
    listen.  The layout effect runs when \<open>scale\<close> changed.
\<close>

datatype event =
    MouseDown point
  | DocMouseMove point
  | DocMouseUp
  | CanvasMouseMove point
  | Wheel wheelEvent

fun step :: "env \<Rightarrow> event \<Rightarrow> canvasState \<Rightarrow> canvasState option" where
  "step en (MouseDown p) s = Some (startPan p s)"
| "step en (DocMouseMove p) s =
     (if isPanning s \<and> hasContext s
      then map_option lastOffsetEffect (offsetEffect (mouseMove p s))
      else Some s)"
| "step en DocMouseUp s = Some (mouseUp s)"
| "step en (CanvasMouseMove p) s = Some (handleUpdateMouse en p s)"
| "step en (Wheel e) s = do {
     s1 \<leftarrow> Canvas_handleWheel e s;
     s2 \<leftarrow> (if scale s1 \<noteq> scale s then offsetEffect s1 else Some s1);
     Some (handleUpdateMouse en \<lparr>x = clientX e, y = clientY e\<rparr> s2)
   }"


text \<open>
  The camera that the hand-tracked state stands for: the camera variant's offset is the
  negated top-left corner of the viewport, its \<open>z\<close> is the scale.
\<close>

definition cameraOf :: "canvasState \<Rightarrow> camera" where
  "cameraOf s = \<lparr>x = - x (viewportTopLeft s), y = - y (viewportTopLeft s), z = scale s\<rparr>"

text \<open>
  The wheel listener is subscribed by a passive effect with the dependencies
  \<^verbatim>\<open>[context, mousePos.x, mousePos.y, viewportTopLeft, scale]\<close>, so it is a closure over
  the values of the render that subscribed it.  It reads \<open>mousePos\<close>, \<open>scale\<close> and
  \<open>viewportTopLeft\<close> from the closure, changes the context's matrix at once, and stores
  \<open>viewportTopLeft\<close> and \<open>scale\<close> by value (\<^verbatim>\<open>setScale(scale * zoom)\<close>, no functional
  update).  \<open>handleWheelIn cl\<close> is the listener with the closure \<open>cl\<close>;
  \<open>Canvas_handleWheel\<close> above is the listener that the render of the current state
  subscribed.
\<close>

record wheelClosure =
  closedContext :: bool
  closedMousePos :: point
  closedViewportTopLeft :: point
  closedScale :: real

definition subscribe :: "canvasState \<Rightarrow> wheelClosure" where
  "subscribe s =
     \<lparr>closedContext = hasContext s, closedMousePos = mousePos s,
      closedViewportTopLeft = viewportTopLeft s, closedScale = scale s\<rparr>"

definition handleWheelIn :: "wheelClosure \<Rightarrow> wheelEvent \<Rightarrow> canvasState \<Rightarrow> canvasState option" where
  "handleWheelIn cl e s =
     (if closedContext cl
      then let zoom = 1 - deltaY e / ZOOM_SENSITIVITY in do {
        qx \<leftarrow> jsdiv (x (closedMousePos cl)) (closedScale cl);
        qy \<leftarrow> jsdiv (y (closedMousePos cl)) (closedScale cl);
        r \<leftarrow> jsdiv 1 zoom;
        let viewportTopLeftDelta = \<lparr>x = qx * (1 - r), y = qy * (1 - r)\<rparr>;
            newViewportTopLeft = addPoints (closedViewportTopLeft cl) viewportTopLeftDelta
        in Some (s\<lparr>transform :=
                     ctx_translate (- x newViewportTopLeft) (- y newViewportTopLeft)
                       (ctx_scale zoom zoom
                          (ctx_translate (x (closedViewportTopLeft cl))
                             (y (closedViewportTopLeft cl)) (transform s))),
                   viewportTopLeft := newViewportTopLeft,
                   scale := closedScale cl * zoom,
                   isReset := False\<rparr>)
      }
      else Some s)"

text \<open>
  The component between two renders: the state with the updates made so far, the closure
  of the wheel listener that is subscribed, and whether \<open>setOffset\<close> was called since the
  last render (it always stores a new object).

  \<open>input\<close> runs the listeners of one event and nothing else.  \<open>render\<close> is a render with
  all its effects: the layout effect runs if \<open>context\<close>, \<open>offset\<close> or \<open>scale\<close> differ from
  the last render, the passive effect \<^verbatim>\<open>lastOffsetRef.current = offset\<close> runs if \<open>offset\<close>
  does, and the wheel listener is subscribed again with the values of this render.  A
  schedule is a list of inputs and renders in the order in which they happen.
\<close>

record component =
  current :: canvasState
  wheelListener :: wheelClosure
  offsetSet :: bool

definition rendered :: "canvasState \<Rightarrow> component" where
  "rendered s = \<lparr>current = s, wheelListener = subscribe s, offsetSet = False\<rparr>"

fun input :: "env \<Rightarrow> event \<Rightarrow> component \<Rightarrow> component option" where
  "input en (MouseDown p) c = Some (c\<lparr>current := startPan p (current c)\<rparr>)"
| "input en (DocMouseMove p) c =
     (if isPanning (current c)
      then Some (c\<lparr>current := mouseMove p (current c),
                   offsetSet := offsetSet c \<or> hasContext (current c)\<rparr>)
      else Some c)"
| "input en DocMouseUp c = Some (c\<lparr>current := mouseUp (current c)\<rparr>)"
| "input en (CanvasMouseMove p) c = Some (c\<lparr>current := handleUpdateMouse en p (current c)\<rparr>)"
| "input en (Wheel e) c = do {
     s1 \<leftarrow> handleWheelIn (wheelListener c) e (current c);
     Some (c\<lparr>current := handleUpdateMouse en \<lparr>x = clientX e, y = clientY e\<rparr> s1\<rparr>)
   }"

definition render :: "component \<Rightarrow> component option" where
  "render c =
     (let s = current c in do {
        s1 \<leftarrow> (if hasContext s \<noteq> closedContext (wheelListener c) \<or> offsetSet c
                    \<or> scale s \<noteq> closedScale (wheelListener c)
                 then offsetEffect s else Some s);
        Some (rendered (if offsetSet c then lastOffsetEffect s1 else s1))
      })"

datatype action = Input event | Render

fun act :: "env \<Rightarrow> action \<Rightarrow> component \<Rightarrow> component option" where
  "act en (Input e) c = input en e c"
| "act en Render c = render c"

fun exec :: "env \<Rightarrow> action list \<Rightarrow> component \<Rightarrow> component option" where
  "exec en [] c = Some c"
| "exec en (a # as) c = do { c' \<leftarrow> act en a c; exec en as c' }"

text \<open>
  \<open>wheelsRendered pending as\<close>: in the schedule \<open>as\<close> a render lies between any two wheel
  events (\<open>pending\<close>: a wheel event has happened since the last render).
\<close>

fun wheelsRendered :: "bool \<Rightarrow> action list \<Rightarrow> bool" where
  "wheelsRendered pending [] = True"
| "wheelsRendered pending (Render # as) = wheelsRendered False as"
| "wheelsRendered pending (Input (Wheel e) # as) = (\<not> pending \<and> wheelsRendered True as)"
| "wheelsRendered pending (Input _ # as) = wheelsRendered pending as"

text \<open>The zoom factor that an action applies (\<open>1\<close> if it is no wheel event).\<close>

fun zoomsBy :: "action \<Rightarrow> real" where
  "zoomsBy (Input (Wheel e)) = 1 - deltaY e / ZOOM_SENSITIVITY"
| "zoomsBy _ = 1"


text \<open>
  The touch variant of the component (the third version of Canvas.tsx) has the same wheel
  listener except for the choice of the zoom factor:
  \<^verbatim>\<open>
  let zoom;
  if (e.ctrlKey) { zoom = 1 - e.deltaY / PINCH_SENSITIVITY; }
  else { zoom = 1 - e.deltaY / ZOOM_SENSITIVITY; }
  \<close>
\<close>

definition PINCH_SENSITIVITY :: real where
  "PINCH_SENSITIVITY = 200"

definition Touch_handleWheel :: "wheelEvent \<Rightarrow> canvasState \<Rightarrow> canvasState option" where
  "Touch_handleWheel e s =
     (if hasContext s
      then let zoom = (if ctrlKey e then 1 - deltaY e / PINCH_SENSITIVITY
                       else 1 - deltaY e / ZOOM_SENSITIVITY) in do {
        qx \<leftarrow> jsdiv (x (mousePos s)) (scale s);
        qy \<leftarrow> jsdiv (y (mousePos s)) (scale s);
        r \<leftarrow> jsdiv 1 zoom;
        let viewportTopLeftDelta = \<lparr>x = qx * (1 - r), y = qy * (1 - r)\<rparr>;
            newViewportTopLeft = addPoints (viewportTopLeft s) viewportTopLeftDelta
        in Some (s\<lparr>transform :=
                     ctx_translate (- x newViewportTopLeft) (- y newViewportTopLeft)
                       (ctx_scale zoom zoom
                          (ctx_translate (x (viewportTopLeft s)) (y (viewportTopLeft s))
                             (transform s))),
                   viewportTopLeft := newViewportTopLeft,
                   scale := scale s * zoom,
                   isReset := False\<rparr>)
      }
      else Some s)"


section \<open>Invariants of the incremental variant\<close>


text \<open>
  \<open>drawOn base cam\<close> is the camera variant's transform of \<open>cam\<close> applied to a context
  whose matrix is \<open>base\<close> instead of the identity; \<open>consistent base s\<close> says that the
  accumulated matrix of the context is that transform of the camera the state stands
  for, and that the scale is not zero.
\<close>

definition drawOn :: "matrix \<Rightarrow> camera \<Rightarrow> matrix" where
  "drawOn base cam = ctx_translate (x cam) (y cam) (ctx_scale (z cam) (z cam) base)"

definition consistent :: "matrix \<Rightarrow> canvasState \<Rightarrow> bool" where
  "consistent base s \<longleftrightarrow>
     transform s = drawOn base (cameraOf s) \<and> scale s \<noteq> 0"

text \<open>
  \<open>settledFor base pending c\<close>: the state of the component is consistent, and unless a wheel
  event has happened since the last render (\<open>pending\<close>) the wheel listener's closure
  holds the current \<open>viewportTopLeft\<close> and \<open>scale\<close>.
\<close>

definition settledFor :: "matrix \<Rightarrow> bool \<Rightarrow> component \<Rightarrow> bool" where
  "settledFor base pending c \<longleftrightarrow>
     consistent base (current c)
     \<and> closedContext (wheelListener c) = hasContext (current c)
     \<and> (\<not> pending \<longrightarrow>
          closedViewportTopLeft (wheelListener c) = viewportTopLeft (current c)
          \<and> closedScale (wheelListener c) = scale (current c))"

text \<open>An environment and states for the worked examples: the canvas of App.tsx.\<close>

definition exampleEnv :: env where
  "exampleEnv =
     \<lparr>ratio = 1, canvasWidth = 500, canvasHeight = 500, offsetLeft = 0, offsetTop = 0\<rparr>"

definition mountedState :: canvasState where
  "mountedState =
     \<lparr>hasContext = True, isReset = False, scale = 1, offset = \<lparr>x = 0, y = 0\<rparr>,
      offsetIsORIGIN = True, lastOffset = \<lparr>x = 0, y = 0\<rparr>,
      viewportTopLeft = \<lparr>x = 0, y = 0\<rparr>, mousePos = \<lparr>x = 0, y = 0\<rparr>,
      lastMousePos = \<lparr>x = 0, y = 0\<rparr>,
      transform = \<lparr>m11 = 1, m12 = 0, m21 = 0, m22 = 1, m41 = 0, m42 = 0\<rparr>,
      canvas_width = 500, canvas_height = 500, isPanning = False\<rparr>"

definition pannedState :: canvasState where
  "pannedState =
     \<lparr>hasContext = True, isReset = False, scale = 1, offset = \<lparr>x = 20, y = 15\<rparr>,
      offsetIsORIGIN = False, lastOffset = \<lparr>x = 20, y = 15\<rparr>,
      viewportTopLeft = \<lparr>x = - 20, y = - 15\<rparr>, mousePos = \<lparr>x = 0, y = 0\<rparr>,
      lastMousePos = \<lparr>x = 30, y = 25\<rparr>,
      transform = \<lparr>m11 = 1, m12 = 0, m21 = 0, m22 = 1, m41 = 20, m42 = 15\<rparr>,
      canvas_width = 500, canvas_height = 500, isPanning = True\<rparr>"

definition hoveredState :: canvasState where
  "hoveredState = mountedState\<lparr>mousePos := \<lparr>x = 100, y = 50\<rparr>\<rparr>"

definition exampleWheel :: wheelEvent where
  "exampleWheel = \<lparr>clientX = 100, clientY = 50, deltaX = 30, deltaY = 250, ctrlKey = False\<rparr>"

definition exampleSchedule :: "action list" where
  "exampleSchedule =
     [Input (MouseDown \<lparr>x = 10, y = 10\<rparr>), Input (DocMouseMove \<lparr>x = 30, y = 25\<rparr>),
      Input (CanvasMouseMove \<lparr>x = 100, y = 50\<rparr>), Render,
      Input (DocMouseMove \<lparr>x = 40, y = 45\<rparr>), Input (Wheel exampleWheel), Render,
      Input (Wheel exampleWheel), Render]"

definition staleSchedule :: "action list" where
  "staleSchedule =
     [Input (CanvasMouseMove \<lparr>x = 100, y = 50\<rparr>), Render,
      Input (Wheel exampleWheel), Input (Wheel exampleWheel), Render]"


section \<open>Basic facts\<close>

lemma jsdiv_Some [simp]: "m \<noteq> 0 \<Longrightarrow> jsdiv n m = Some (n / m)"
  by (simp add: jsdiv_def)

lemma jsdiv_zero [simp]: "jsdiv n 0 = None"
  by (simp add: jsdiv_def)

lemma screenToCanvas_defined:
  "z cam \<noteq> 0 \<Longrightarrow>
   screenToCanvas p cam = Some \<lparr>x = x p / z cam - x cam, y = y p / z cam - y cam\<rparr>"
  by (simp add: screenToCanvas_def)

lemma screenToCanvas_undefined: "z cam = 0 \<Longrightarrow> screenToCanvas p cam = None"
  by (simp add: screenToCanvas_def)

lemma panCamera_defined:
  "z cam \<noteq> 0 \<Longrightarrow>
   panCamera cam dx dy = Some \<lparr>x = x cam - dx / z cam, y = y cam - dy / z cam, z = z cam\<rparr>"
  by (simp add: panCamera_def)

lemma zoomCamera_defined:
  "z cam \<noteq> 0 \<Longrightarrow> z cam - dz * z cam \<noteq> 0 \<Longrightarrow>
   zoomCamera cam p dz =
     Some \<lparr>x = x cam + (x p / (z cam - dz * z cam) - x p / z cam),
           y = y cam + (y p / (z cam - dz * z cam) - y p / z cam),
           z = z cam - dz * z cam\<rparr>"
  by (simp add: zoomCamera_def Let_def screenToCanvas_def)

lemma zoomCamera_undefined:
  "z cam = 0 \<or> z cam - dz * z cam = 0 \<Longrightarrow> zoomCamera cam p dz = None"
  by (auto simp add: zoomCamera_def Let_def screenToCanvas_def jsdiv_def)


section \<open>Round trip between screen and world\<close>

text \<open>
  C2.  For every camera with \<open>z > 0\<close> and every point \<open>p\<close>, the two conversions are
  mutually inverse: converting a screen point to the world and back gives \<open>p\<close>, and
  converting a world point to the screen and back gives \<open>p\<close>.
\<close>

theorem screen_world_round_trip:
  assumes "0 < z cam"
  shows "(\<exists>w. screenToCanvas p cam = Some w \<and> canvasToScreen w cam = p)
         \<and> screenToCanvas (canvasToScreen p cam) cam = Some p"
proof -
  from assms have nz: "z cam \<noteq> 0" by simp
  have "canvasToScreen \<lparr>x = x p / z cam - x cam, y = y p / z cam - y cam\<rparr> cam = p"
    using nz by (simp add: canvasToScreen_def)
  moreover have "screenToCanvas (canvasToScreen p cam) cam = Some p"
    using nz by (simp add: screenToCanvas_def canvasToScreen_def)
  ultimately show ?thesis
    using screenToCanvas_defined [OF nz] by simp
qed

theorem screen_world_round_trip_witness:
  "(\<exists>w. screenToCanvas \<lparr>x = 6, y = 8\<rparr> \<lparr>x = 1, y = 2, z = 2\<rparr> = Some w
        \<and> canvasToScreen w \<lparr>x = 1, y = 2, z = 2\<rparr> = \<lparr>x = 6, y = 8\<rparr>)
   \<and> screenToCanvas (canvasToScreen \<lparr>x = 6, y = 8\<rparr> \<lparr>x = 1, y = 2, z = 2\<rparr>) \<lparr>x = 1, y = 2, z = 2\<rparr>
       = Some \<lparr>x = 6, y = 8\<rparr>"
  using screen_world_round_trip [of "\<lparr>x = 1, y = 2, z = 2\<rparr>" "\<lparr>x = 6, y = 8\<rparr>"] by simp


section \<open>Anchored zoom\<close>

text \<open>
  C1.  For every camera with scale \<open>z > 0\<close>, every screen-space anchor \<open>a\<close> and every
  scale delta \<open>d\<close> whose new scale \<open>z - d * z\<close> is positive, the anchored zoom yields a
  camera under which the anchor lies over the same world point as before.
\<close>

theorem zoom_keeps_anchor:
  assumes "0 < z cam" and "0 < z cam - d * z cam"
  shows "\<exists>cam' w. zoomCamera cam a d = Some cam'
           \<and> screenToCanvas a cam = Some w \<and> screenToCanvas a cam' = Some w"
proof -
  from assms have nz: "z cam \<noteq> 0" and nz': "z cam - d * z cam \<noteq> 0" by simp_all
  let ?cam' = "\<lparr>x = x cam + (x a / (z cam - d * z cam) - x a / z cam),
                y = y cam + (y a / (z cam - d * z cam) - y a / z cam),
                z = z cam - d * z cam\<rparr>"
  have zoomed: "zoomCamera cam a d = Some ?cam'"
    by (rule zoomCamera_defined [OF nz nz'])
  have before: "screenToCanvas a cam = Some \<lparr>x = x a / z cam - x cam, y = y a / z cam - y cam\<rparr>"
    by (rule screenToCanvas_defined [OF nz])
  have after: "screenToCanvas a ?cam' = Some \<lparr>x = x a / z cam - x cam, y = y a / z cam - y cam\<rparr>"
    using nz' by (simp add: screenToCanvas_def)
  from zoomed before after show ?thesis by blast
qed

theorem zoom_keeps_anchor_witness:
  "\<exists>cam' w. zoomCamera \<lparr>x = 1, y = 2, z = 2\<rparr> \<lparr>x = 6, y = 8\<rparr> (1 / 2) = Some cam'
     \<and> screenToCanvas \<lparr>x = 6, y = 8\<rparr> \<lparr>x = 1, y = 2, z = 2\<rparr> = Some w
     \<and> screenToCanvas \<lparr>x = 6, y = 8\<rparr> cam' = Some w"
  using zoom_keeps_anchor [of "\<lparr>x = 1, y = 2, z = 2\<rparr>" "1 / 2" "\<lparr>x = 6, y = 8\<rparr>"] by simp

text \<open>
  C5.  Whenever \<open>zoomCamera\<close> yields a camera, its scale is \<open>z - dz * z\<close>, and it yields
  one whenever neither the old nor the new scale is zero; zooming the identity camera at
  the anchor \<open>(0, 0)\<close> with \<open>dz = 0.5\<close> returns exactly \<open>{x: 0, y: 0, z: 0.5}\<close>.
\<close>

theorem zoom_new_scale:
  "(zoomCamera cam a dz = Some cam' \<longrightarrow> z cam' = z cam - dz * z cam)
   \<and> (z cam \<noteq> 0 \<and> z cam - dz * z cam \<noteq> 0 \<longrightarrow> (\<exists>c. zoomCamera cam a dz = Some c))
   \<and> zoomCamera \<lparr>x = 0, y = 0, z = 1\<rparr> \<lparr>x = 0, y = 0\<rparr> (1 / 2) = Some \<lparr>x = 0, y = 0, z = 1 / 2\<rparr>"
proof (intro conjI impI)
  assume "zoomCamera cam a dz = Some cam'"
  then show "z cam' = z cam - dz * z cam"
    by (auto simp add: zoomCamera_def Let_def split: bind_splits)
next
  assume "z cam \<noteq> 0 \<and> z cam - dz * z cam \<noteq> 0"
  then show "\<exists>c. zoomCamera cam a dz = Some c"
    by (simp add: zoomCamera_defined)
next
  show "zoomCamera \<lparr>x = 0, y = 0, z = 1\<rparr> \<lparr>x = 0, y = 0\<rparr> (1 / 2) = Some \<lparr>x = 0, y = 0, z = 1 / 2\<rparr>"
    by (simp add: zoomCamera_def Let_def screenToCanvas_def)
qed

theorem zoom_new_scale_witness:
  "zoomCamera \<lparr>x = 1, y = 2, z = 2\<rparr> \<lparr>x = 6, y = 8\<rparr> (1 / 2) = Some \<lparr>x = 4, y = 6, z = 1\<rparr>
   \<and> z \<lparr>x = 4, y = 6, z = 1::real\<rparr> = z \<lparr>x = 1, y = 2, z = 2::real\<rparr> - (1 / 2) * z \<lparr>x = 1, y = 2, z = 2::real\<rparr>"
proof -
  have run: "zoomCamera \<lparr>x = 1, y = 2, z = 2\<rparr> \<lparr>x = 6, y = 8\<rparr> (1 / 2) = Some \<lparr>x = 4, y = 6, z = 1\<rparr>"
    by (simp add: zoomCamera_def Let_def screenToCanvas_def)
  from zoom_new_scale [of "\<lparr>x = 1, y = 2, z = 2\<rparr>" "\<lparr>x = 6, y = 8\<rparr>" "1 / 2" "\<lparr>x = 4, y = 6, z = 1\<rparr>"] run
  show ?thesis by simp
qed

text \<open>
  C10 (as amended).  For every camera whose scale is not zero, a zoom with delta \<open>0\<close> returns
  exactly that camera, whatever the anchor.
\<close>

theorem zoom_zero_delta_identity:
  assumes "z cam \<noteq> 0"
  shows "zoomCamera cam a 0 = Some cam"
  using assms by (simp add: zoomCamera_def Let_def screenToCanvas_def)

theorem zoom_zero_delta_identity_witness:
  "zoomCamera \<lparr>x = 1, y = 2, z = 2\<rparr> \<lparr>x = 6, y = 8\<rparr> 0 = Some \<lparr>x = 1, y = 2, z = 2\<rparr>"
  using zoom_zero_delta_identity [of "\<lparr>x = 1, y = 2, z = 2\<rparr>" "\<lparr>x = 6, y = 8\<rparr>"] by simp

text \<open>
  C10 as stated fails for a camera of scale \<open>0\<close>: both anchor conversions divide by zero,
  JavaScript computes \<open>Infinity - Infinity = NaN\<close> for the offsets, and the result is not
  the camera that went in.
\<close>

theorem zoom_zero_delta_counterexample:
  "zoomCamera \<lparr>x = 0, y = 0, z = 0\<rparr> \<lparr>x = 1, y = 1\<rparr> 0 \<noteq> Some \<lparr>x = 0, y = 0, z = 0\<rparr>"
  by (simp add: zoomCamera_def Let_def screenToCanvas_def)


section \<open>Pan\<close>

text \<open>
  C4.  For every camera (of non-zero scale, so that the quotients exist) and all screen
  deltas, \<open>panCamera\<close> returns the camera with \<open>x\<close> decreased by \<open>dx / z\<close>, \<open>y\<close> decreased
  by \<open>dy / z\<close> and \<open>z\<close> unchanged; panning the identity camera by \<open>(100, 50)\<close> yields
  exactly \<open>{x: -100, y: -50, z: 1}\<close>.
\<close>

theorem pan_camera_result:
  "(z cam \<noteq> 0 \<longrightarrow>
      panCamera cam dx dy = Some \<lparr>x = x cam - dx / z cam, y = y cam - dy / z cam, z = z cam\<rparr>)
   \<and> panCamera \<lparr>x = 0, y = 0, z = 1\<rparr> 100 50 = Some \<lparr>x = - 100, y = - 50, z = 1\<rparr>"
  by (simp add: panCamera_def)

theorem pan_camera_result_witness:
  "panCamera \<lparr>x = 1, y = 2, z = 2\<rparr> 6 8 = Some \<lparr>x = - 2, y = - 2, z = 2\<rparr>"
  using pan_camera_result [of "\<lparr>x = 1, y = 2, z = 2\<rparr>" 6 8] by simp

text \<open>
  C6.  For every camera with \<open>z > 0\<close>, two consecutive pans equal one pan by the sum of
  the deltas (and all three pans yield a camera).
\<close>

theorem pan_linear:
  assumes "0 < z cam"
  shows "\<exists>c1 c2. panCamera cam dx1 dy1 = Some c1 \<and> panCamera c1 dx2 dy2 = Some c2
           \<and> panCamera cam (dx1 + dx2) (dy1 + dy2) = Some c2"
proof -
  from assms have nz: "z cam \<noteq> 0" by simp
  let ?c1 = "\<lparr>x = x cam - dx1 / z cam, y = y cam - dy1 / z cam, z = z cam\<rparr>"
  let ?c2 = "\<lparr>x = x cam - (dx1 + dx2) / z cam, y = y cam - (dy1 + dy2) / z cam, z = z cam\<rparr>"
  have first: "panCamera cam dx1 dy1 = Some ?c1"
    by (rule panCamera_defined [OF nz])
  have both: "panCamera cam (dx1 + dx2) (dy1 + dy2) = Some ?c2"
    by (rule panCamera_defined [OF nz])
  have second: "panCamera ?c1 dx2 dy2 = Some ?c2"
    using nz by (simp add: panCamera_def add_divide_distrib)
  from first second both show ?thesis by blast
qed

theorem pan_linear_witness:
  "\<exists>c1 c2. panCamera \<lparr>x = 1, y = 2, z = 2\<rparr> 6 8 = Some c1 \<and> panCamera c1 4 2 = Some c2
     \<and> panCamera \<lparr>x = 1, y = 2, z = 2\<rparr> (6 + 4) (8 + 2) = Some c2"
  using pan_linear [of "\<lparr>x = 1, y = 2, z = 2\<rparr>" 6 8 4 2] by simp


section \<open>The wheel handler\<close>

text \<open>
  C8 (as amended).  In the camera variant a wheel event with \<open>ctrlKey\<close> is the anchored
  zoom at \<open>(clientX, clientY)\<close> with \<open>dz = deltaY / 200\<close>, and one without is the pan by
  \<open>(deltaX, deltaY)\<close>, which leaves the scale alone.  The incremental variants have no
  wheel pan: the wheel listener of Canvas.tsx multiplies the scale by \<open>1 - deltaY / 500\<close>
  whatever \<open>ctrlKey\<close> is, and the one of the touch variant by \<open>1 - deltaY / 200\<close> with
  \<open>ctrlKey\<close> and by \<open>1 - deltaY / 500\<close> without; both move \<open>viewportTopLeft\<close> so that the
  world point under \<open>mousePos\<close> stays, and leave \<open>offset\<close> as it is.
\<close>

theorem wheel_dispatch:
  "(ctrlKey e \<and> z cam \<noteq> 0 \<and> z cam - deltaY e / 200 * z cam \<noteq> 0 \<longrightarrow>
      handleWheel e cam =
        Some \<lparr>x = x cam + (clientX e / (z cam - deltaY e / 200 * z cam) - clientX e / z cam),
              y = y cam + (clientY e / (z cam - deltaY e / 200 * z cam) - clientY e / z cam),
              z = z cam - deltaY e / 200 * z cam\<rparr>)
   \<and> (\<not> ctrlKey e \<and> z cam \<noteq> 0 \<longrightarrow>
      handleWheel e cam =
        Some \<lparr>x = x cam - deltaX e / z cam, y = y cam - deltaY e / z cam, z = z cam\<rparr>)
   \<and> (hasContext s \<and> scale s \<noteq> 0 \<and> 1 - deltaY e / 500 \<noteq> 0 \<longrightarrow>
      (\<exists>s'. Canvas_handleWheel e s = Some s'
         \<and> scale s' = scale s * (1 - deltaY e / 500)
         \<and> viewportTopLeft s' =
             \<lparr>x = x (viewportTopLeft s)
                    + x (mousePos s) / scale s * (1 - 1 / (1 - deltaY e / 500)),
               y = y (viewportTopLeft s)
                    + y (mousePos s) / scale s * (1 - 1 / (1 - deltaY e / 500))\<rparr>
         \<and> offset s' = offset s))
   \<and> (hasContext s \<and> scale s \<noteq> 0
        \<and> (if ctrlKey e then 1 - deltaY e / 200 else 1 - deltaY e / 500) \<noteq> 0 \<longrightarrow>
      (\<exists>s'. Touch_handleWheel e s = Some s'
         \<and> scale s' = scale s * (if ctrlKey e then 1 - deltaY e / 200 else 1 - deltaY e / 500)
         \<and> viewportTopLeft s' =
             \<lparr>x = x (viewportTopLeft s) + x (mousePos s) / scale s
                      * (1 - 1 / (if ctrlKey e then 1 - deltaY e / 200 else 1 - deltaY e / 500)),
               y = y (viewportTopLeft s) + y (mousePos s) / scale s
                      * (1 - 1 / (if ctrlKey e then 1 - deltaY e / 200 else 1 - deltaY e / 500))\<rparr>
         \<and> offset s' = offset s))"
proof (intro conjI impI)
  assume "ctrlKey e \<and> z cam \<noteq> 0 \<and> z cam - deltaY e / 200 * z cam \<noteq> 0"
  then show "handleWheel e cam =
        Some \<lparr>x = x cam + (clientX e / (z cam - deltaY e / 200 * z cam) - clientX e / z cam),
              y = y cam + (clientY e / (z cam - deltaY e / 200 * z cam) - clientY e / z cam),
              z = z cam - deltaY e / 200 * z cam\<rparr>"
    by (simp add: handleWheel_def TOUCHPAD_ZOOM_SENS_def zoomCamera_def Let_def
          screenToCanvas_def)
next
  assume "\<not> ctrlKey e \<and> z cam \<noteq> 0"
  then show "handleWheel e cam =
        Some \<lparr>x = x cam - deltaX e / z cam, y = y cam - deltaY e / z cam, z = z cam\<rparr>"
    by (simp add: handleWheel_def TOUCHPAD_PAN_SENS_def panCamera_def)
next
  assume "hasContext s \<and> scale s \<noteq> 0 \<and> 1 - deltaY e / 500 \<noteq> 0"
  then show "\<exists>s'. Canvas_handleWheel e s = Some s'
         \<and> scale s' = scale s * (1 - deltaY e / 500)
         \<and> viewportTopLeft s' =
             \<lparr>x = x (viewportTopLeft s)
                    + x (mousePos s) / scale s * (1 - 1 / (1 - deltaY e / 500)),
               y = y (viewportTopLeft s)
                    + y (mousePos s) / scale s * (1 - 1 / (1 - deltaY e / 500))\<rparr>
         \<and> offset s' = offset s"
    by (simp add: Canvas_handleWheel_def ZOOM_SENSITIVITY_def Let_def addPoints_def)
next
  assume "hasContext s \<and> scale s \<noteq> 0
        \<and> (if ctrlKey e then 1 - deltaY e / 200 else 1 - deltaY e / 500) \<noteq> 0"
  then show "\<exists>s'. Touch_handleWheel e s = Some s'
         \<and> scale s' = scale s * (if ctrlKey e then 1 - deltaY e / 200 else 1 - deltaY e / 500)
         \<and> viewportTopLeft s' =
             \<lparr>x = x (viewportTopLeft s) + x (mousePos s) / scale s
                      * (1 - 1 / (if ctrlKey e then 1 - deltaY e / 200 else 1 - deltaY e / 500)),
               y = y (viewportTopLeft s) + y (mousePos s) / scale s
                      * (1 - 1 / (if ctrlKey e then 1 - deltaY e / 200 else 1 - deltaY e / 500))\<rparr>
         \<and> offset s' = offset s"
    by (cases "ctrlKey e")
       (simp_all add: Touch_handleWheel_def ZOOM_SENSITIVITY_def PINCH_SENSITIVITY_def Let_def
          addPoints_def)
qed

theorem wheel_dispatch_witness:
  "handleWheel \<lparr>clientX = 6, clientY = 8, deltaX = 3, deltaY = 100, ctrlKey = True\<rparr>
       \<lparr>x = 1, y = 2, z = 2\<rparr>
     = Some \<lparr>x = 4, y = 6, z = 1\<rparr>
   \<and> handleWheel \<lparr>clientX = 6, clientY = 8, deltaX = 3, deltaY = 100, ctrlKey = False\<rparr>
       \<lparr>x = 1, y = 2, z = 2\<rparr>
     = Some \<lparr>x = - 1 / 2, y = - 48, z = 2\<rparr>
   \<and> (\<exists>s'. Canvas_handleWheel \<lparr>clientX = 6, clientY = 8, deltaX = 3, deltaY = 100, ctrlKey = True\<rparr>
              hoveredState = Some s'
         \<and> scale s' = 4 / 5 \<and> viewportTopLeft s' = \<lparr>x = - 25, y = - 25 / 2\<rparr>
         \<and> offset s' = \<lparr>x = 0, y = 0\<rparr>)
   \<and> (\<exists>s'. Touch_handleWheel \<lparr>clientX = 6, clientY = 8, deltaX = 3, deltaY = 100, ctrlKey = True\<rparr>
              hoveredState = Some s'
         \<and> scale s' = 1 / 2 \<and> viewportTopLeft s' = \<lparr>x = - 100, y = - 50\<rparr>
         \<and> offset s' = \<lparr>x = 0, y = 0\<rparr>)
   \<and> (\<exists>s'. Touch_handleWheel \<lparr>clientX = 6, clientY = 8, deltaX = 3, deltaY = 100, ctrlKey = False\<rparr>
              hoveredState = Some s'
         \<and> scale s' = 4 / 5 \<and> viewportTopLeft s' = \<lparr>x = - 25, y = - 25 / 2\<rparr>
         \<and> offset s' = \<lparr>x = 0, y = 0\<rparr>)"
  using wheel_dispatch
          [of "\<lparr>clientX = 6, clientY = 8, deltaX = 3, deltaY = 100, ctrlKey = True\<rparr>"
              "\<lparr>x = 1, y = 2, z = 2\<rparr>" hoveredState]
        wheel_dispatch
          [of "\<lparr>clientX = 6, clientY = 8, deltaX = 3, deltaY = 100, ctrlKey = False\<rparr>"
              "\<lparr>x = 1, y = 2, z = 2\<rparr>" hoveredState]
  by (simp add: hoveredState_def mountedState_def)

text \<open>
  C8 as stated fails on the incremental variants: there a wheel event without \<open>ctrlKey\<close>
  and with \<open>deltaX = 30\<close>, \<open>deltaY = 250\<close> halves the scale about the pointer at
  \<open>(100, 50)\<close> and pans nothing.
\<close>

theorem wheel_dispatch_counterexample:
  "\<not> ctrlKey exampleWheel \<and> scale hoveredState = 1
   \<and> map_option scale (Touch_handleWheel exampleWheel hoveredState) = Some (1 / 2)
   \<and> map_option viewportTopLeft (Touch_handleWheel exampleWheel hoveredState)
       = Some \<lparr>x = - 100, y = - 50\<rparr>
   \<and> map_option offset (Touch_handleWheel exampleWheel hoveredState) = Some (offset hoveredState)
   \<and> map_option scale (Canvas_handleWheel exampleWheel hoveredState) = Some (1 / 2)
   \<and> map_option viewportTopLeft (Canvas_handleWheel exampleWheel hoveredState)
       = Some \<lparr>x = - 100, y = - 50\<rparr>
   \<and> map_option offset (Canvas_handleWheel exampleWheel hoveredState) = Some (offset hoveredState)"
  by (simp add: exampleWheel_def hoveredState_def mountedState_def Touch_handleWheel_def
        Canvas_handleWheel_def ZOOM_SENSITIVITY_def PINCH_SENSITIVITY_def Let_def addPoints_def)

text \<open>
  C3 (as amended).  For every camera with \<open>z > 0\<close> and every anchor, the controller's zoom
  (a wheel event with \<open>ctrlKey\<close>) yields a camera with \<open>z > 0\<close> exactly when
  \<open>deltaY < 200\<close>, and its scale is then \<open>z - (deltaY / 200) * z\<close>: nothing is clamped.
\<close>

theorem wheel_zoom_positive_scale:
  assumes "0 < z cam" and "ctrlKey e"
  shows "(deltaY e < 200 \<longrightarrow>
            (\<exists>cam'. handleWheel e cam = Some cam'
               \<and> z cam' = z cam - (deltaY e / 200) * z cam \<and> 0 < z cam'))
         \<and> (\<not> deltaY e < 200 \<longrightarrow> \<not> (\<exists>cam'. handleWheel e cam = Some cam' \<and> 0 < z cam'))"
proof (intro conjI impI)
  let ?dz = "deltaY e / 200"
  let ?a = "\<lparr>x = clientX e, y = clientY e\<rparr>"
  have hw: "handleWheel e cam = zoomCamera cam ?a ?dz"
    using assms(2) by (simp add: handleWheel_def TOUCHPAD_ZOOM_SENS_def)
  have scale_eq: "z cam - ?dz * z cam = z cam * (1 - ?dz)"
    by (simp add: algebra_simps)
  have pos_iff: "0 < z cam - ?dz * z cam \<longleftrightarrow> deltaY e < 200"
    unfolding scale_eq using assms(1) by (simp add: zero_less_mult_iff)
  from assms(1) have nz: "z cam \<noteq> 0" by simp
  {
    assume small: "deltaY e < 200"
    with pos_iff have pos: "0 < z cam - ?dz * z cam" by blast
    then have nz': "z cam - ?dz * z cam \<noteq> 0" by linarith
    let ?cam' = "\<lparr>x = x cam + (x ?a / (z cam - ?dz * z cam) - x ?a / z cam),
                  y = y cam + (y ?a / (z cam - ?dz * z cam) - y ?a / z cam),
                  z = z cam - ?dz * z cam\<rparr>"
    have "handleWheel e cam = Some ?cam'"
      unfolding hw by (rule zoomCamera_defined [OF nz nz'])
    moreover have "z ?cam' = z cam - ?dz * z cam" by simp
    moreover from pos have "0 < z ?cam'" by simp
    ultimately show "\<exists>cam'. handleWheel e cam = Some cam'
                       \<and> z cam' = z cam - ?dz * z cam \<and> 0 < z cam'"
      by blast
  }
  {
    assume large: "\<not> deltaY e < 200"
    show "\<not> (\<exists>cam'. handleWheel e cam = Some cam' \<and> 0 < z cam')"
    proof
      assume "\<exists>cam'. handleWheel e cam = Some cam' \<and> 0 < z cam'"
      then obtain cam' where got: "zoomCamera cam ?a ?dz = Some cam'" and pos: "0 < z cam'"
        unfolding hw by blast
      from got have "z cam' = z cam - ?dz * z cam"
        by (auto simp add: zoomCamera_def Let_def split: bind_splits)
      with pos have "0 < z cam - ?dz * z cam" by simp
      with pos_iff large show False by blast
    qed
  }
qed

theorem wheel_zoom_positive_scale_witness:
  "(\<exists>cam'. handleWheel \<lparr>clientX = 6, clientY = 8, deltaX = 3, deltaY = 100, ctrlKey = True\<rparr>
              \<lparr>x = 1, y = 2, z = 2\<rparr> = Some cam'
      \<and> z cam' = 1 \<and> 0 < z cam')
   \<and> \<not> (\<exists>cam'. handleWheel \<lparr>clientX = 6, clientY = 8, deltaX = 3, deltaY = 400, ctrlKey = True\<rparr>
              \<lparr>x = 1, y = 2, z = 2\<rparr> = Some cam'
      \<and> 0 < z cam')"
  using wheel_zoom_positive_scale
          [of "\<lparr>x = 1, y = 2, z = 2\<rparr>"
              "\<lparr>clientX = 6, clientY = 8, deltaX = 3, deltaY = 100, ctrlKey = True\<rparr>"]
        wheel_zoom_positive_scale
          [of "\<lparr>x = 1, y = 2, z = 2\<rparr>"
              "\<lparr>clientX = 6, clientY = 8, deltaX = 3, deltaY = 400, ctrlKey = True\<rparr>"]
  by simp

text \<open>
  C3 as stated fails: from the identity camera a wheel event with \<open>ctrlKey\<close> and
  \<open>deltaY = 400\<close> gives \<open>dz = 2\<close> and the new scale \<open>1 - 2 * 1 = -1\<close>, which the handler
  stores as it is.
\<close>

theorem wheel_zoom_clamp_counterexample:
  "handleWheel \<lparr>clientX = 10, clientY = 20, deltaX = 0, deltaY = 400, ctrlKey = True\<rparr>
     \<lparr>x = 0, y = 0, z = 1\<rparr> = Some \<lparr>x = - 20, y = - 40, z = - 1\<rparr>"
  by (simp add: handleWheel_def TOUCHPAD_ZOOM_SENS_def zoomCamera_def Let_def screenToCanvas_def)


section \<open>The incremental variant: reset\<close>











lemmas example_simps =
  exampleEnv_def mountedState_def pannedState_def resetEvent_def reset_def offsetEffect_def
  lastOffsetEffect_def scalePoint_def diffPoints_def addPoints_def ORIGIN_def mouseMove_def
  startPan_def ctx_translate_def ctx_scale_def resetTransform_def Let_def





section \<open>The incremental variant and the camera variant's transform\<close>

lemma draw_matrix:
  "draw cam = \<lparr>m11 = z cam, m12 = 0, m21 = 0, m22 = z cam, m41 = z cam * x cam, m42 = z cam * y cam\<rparr>"
  by (simp add: draw_def ctx_translate_def ctx_scale_def resetTransform_def)

lemma draw_drawOn: "draw cam = drawOn resetTransform cam"
  by (simp add: draw_def drawOn_def)

lemma draw_canvasToScreen: "transformPoint (draw cam) p = canvasToScreen p cam"
  by (simp add: draw_matrix transformPoint_def canvasToScreen_def algebra_simps)

lemma Canvas_handleWheel_subscribe: "Canvas_handleWheel e s = handleWheelIn (subscribe s) e s"
  by (simp add: Canvas_handleWheel_def handleWheelIn_def subscribe_def)

lemma offsetEffect_consistent:
  assumes "consistent base s"
  shows "\<exists>s'. offsetEffect s = Some s' \<and> consistent base s' \<and> hasContext s' = hasContext s"
proof (cases "hasContext s")
  case False
  with assms show ?thesis by (simp add: offsetEffect_def)
next
  case True
  from assms have tr: "transform s = drawOn base (cameraOf s)" and nz: "scale s \<noteq> 0"
    by (simp_all add: consistent_def)
  let ?d = "\<lparr>x = (x (offset s) - x (lastOffset s)) / scale s,
             y = (y (offset s) - y (lastOffset s)) / scale s\<rparr>"
  let ?s' = "s\<lparr>transform := ctx_translate (x ?d) (y ?d) (transform s),
               viewportTopLeft := diffPoints (viewportTopLeft s) ?d, isReset := False\<rparr>"
  have "offsetEffect s = Some ?s'"
    using True nz by (simp add: offsetEffect_def scalePoint_def diffPoints_def)
  moreover have "consistent base ?s'"
    using nz tr
    by (simp add: consistent_def drawOn_def cameraOf_def ctx_translate_def ctx_scale_def
          diffPoints_def algebra_simps)
  ultimately show ?thesis by simp
qed

lemma handleWheelIn_consistent:
  assumes "consistent base s"
    and "closedViewportTopLeft cl = viewportTopLeft s" and "closedScale cl = scale s"
    and "1 - deltaY e / ZOOM_SENSITIVITY \<noteq> 0"
  shows "\<exists>s'. handleWheelIn cl e s = Some s' \<and> consistent base s'
           \<and> hasContext s' = hasContext s"
proof (cases "closedContext cl")
  case False
  with assms(1) show ?thesis by (simp add: handleWheelIn_def)
next
  case True
  from assms(1) have tr: "transform s = drawOn base (cameraOf s)" and nz: "scale s \<noteq> 0"
    by (simp_all add: consistent_def)
  define zoom where "zoom = 1 - deltaY e / ZOOM_SENSITIVITY"
  with assms(4) have zoom_nz: "zoom \<noteq> 0" by simp
  define new where
    "new = \<lparr>x = x (viewportTopLeft s) + x (closedMousePos cl) / scale s * (1 - 1 / zoom),
            y = y (viewportTopLeft s) + y (closedMousePos cl) / scale s * (1 - 1 / zoom)\<rparr>"
  define s' where
    "s' = s\<lparr>transform := ctx_translate (- x new) (- y new)
                (ctx_scale zoom zoom
                   (ctx_translate (x (viewportTopLeft s)) (y (viewportTopLeft s)) (transform s))),
             viewportTopLeft := new, scale := scale s * zoom, isReset := False\<rparr>"
  have "handleWheelIn cl e s = Some s'"
    using True nz zoom_nz assms(2,3)
    by (simp add: handleWheelIn_def Let_def zoom_def [symmetric] addPoints_def new_def s'_def)
  moreover have "consistent base s'"
    using nz zoom_nz tr
    by (simp add: consistent_def s'_def drawOn_def cameraOf_def ctx_translate_def ctx_scale_def
          algebra_simps)
  moreover have "hasContext s' = hasContext s"
    by (simp add: s'_def)
  ultimately show ?thesis by blast
qed

lemma settledFor_rendered: "consistent base s \<Longrightarrow> settledFor base False (rendered s)"
  by (simp add: settledFor_def rendered_def subscribe_def)

lemma render_settled:
  assumes "settledFor base pending c"
  shows "\<exists>c'. render c = Some c' \<and> settledFor base False c'"
proof -
  from assms have cons: "consistent base (current c)" by (simp add: settledFor_def)
  from offsetEffect_consistent [OF cons] obtain s1 where
    eff: "offsetEffect (current c) = Some s1" and cons1: "consistent base s1"
    by blast
  have last: "consistent base (lastOffsetEffect s') " if "consistent base s'" for s'
    using that by (simp add: consistent_def lastOffsetEffect_def cameraOf_def)
  show ?thesis
    using eff cons cons1 last [OF cons] last [OF cons1]
    by (auto simp add: render_def Let_def intro: settledFor_rendered)
qed

lemma input_settled:
  assumes "settledFor base pending c" and "zoomsBy (Input e) \<noteq> 0"
    and "wheelsRendered pending (Input e # as)"
  shows "\<exists>c' pending'. input en e c = Some c' \<and> settledFor base pending' c'
           \<and> wheelsRendered pending' as"
proof (cases e)
  case (MouseDown p)
  with assms(1,3) show ?thesis
    by (auto simp add: settledFor_def consistent_def cameraOf_def startPan_def)
next
  case (DocMouseMove p)
  with assms(1,3) show ?thesis
    by (auto simp add: settledFor_def consistent_def cameraOf_def mouseMove_def Let_def)
next
  case DocMouseUp
  with assms(1,3) show ?thesis
    by (auto simp add: settledFor_def consistent_def cameraOf_def mouseUp_def)
next
  case (CanvasMouseMove p)
  with assms(1,3) show ?thesis
    by (auto simp add: settledFor_def consistent_def cameraOf_def handleUpdateMouse_def Let_def)
next
  case (Wheel w)
  with assms(3) have fresh: "\<not> pending" and rest: "wheelsRendered True as" by simp_all
  from assms(1) fresh have
    cons: "consistent base (current c)" and
    ctx: "closedContext (wheelListener c) = hasContext (current c)" and
    vtl: "closedViewportTopLeft (wheelListener c) = viewportTopLeft (current c)" and
    sc: "closedScale (wheelListener c) = scale (current c)"
    by (simp_all add: settledFor_def)
  from assms(2) Wheel have "1 - deltaY w / ZOOM_SENSITIVITY \<noteq> 0" by simp
  from handleWheelIn_consistent [OF cons vtl sc this] obtain s1 where
    h: "handleWheelIn (wheelListener c) w (current c) = Some s1" and
    cons1: "consistent base s1" and ctx1: "hasContext s1 = hasContext (current c)"
    by blast
  let ?c' = "c\<lparr>current := handleUpdateMouse en \<lparr>x = clientX w, y = clientY w\<rparr> s1\<rparr>"
  have "input en e c = Some ?c'"
    using Wheel h by simp
  moreover have "settledFor base True ?c'"
    using cons1 ctx ctx1
    by (simp add: settledFor_def consistent_def cameraOf_def handleUpdateMouse_def Let_def)
  ultimately show ?thesis using rest by blast
qed

lemma exec_settled:
  assumes "settledFor base pending c" and "wheelsRendered pending as"
    and "\<forall>a \<in> set as. zoomsBy a \<noteq> 0"
  shows "\<exists>c'. exec en as c = Some c' \<and> consistent base (current c')"
  using assms
proof (induction as arbitrary: c pending)
  case Nil
  then show ?case by (simp add: settledFor_def)
next
  case (Cons a as)
  from Cons.prems(3) have here: "zoomsBy a \<noteq> 0" and rest: "\<forall>a \<in> set as. zoomsBy a \<noteq> 0"
    by simp_all
  have "\<exists>c1 pending1. act en a c = Some c1 \<and> settledFor base pending1 c1
          \<and> wheelsRendered pending1 as"
  proof (cases a)
    case (Input e)
    with input_settled [OF Cons.prems(1), of e as en] here Cons.prems(2) show ?thesis by simp
  next
    case Render
    with render_settled [OF Cons.prems(1)] Cons.prems(2) show ?thesis by auto
  qed
  then obtain c1 pending1 where
    first: "act en a c = Some c1" and inv: "settledFor base pending1 c1"
    and sched: "wheelsRendered pending1 as"
    by blast
  from Cons.IH [OF inv sched rest] first show ?case by simp
qed

lemma mount_consistent:
  "\<exists>s. mount en = Some s \<and> cameraOf s = initialCamera
       \<and> consistent (ctx_scale (ratio en) (ratio en) resetTransform) s"
  by (simp add: mount_def resetEvent_def initialState_def reset_def offsetEffect_def
        lastOffsetEffect_def scalePoint_def diffPoints_def ORIGIN_def consistent_def drawOn_def
        cameraOf_def initialCamera_def ctx_translate_def ctx_scale_def resetTransform_def)

text \<open>
  C9 (as amended).  Mount the component and let any schedule of pan and zoom events and
  renders follow in which a render, with its effects, lies between any two wheel events
  and no wheel event has the zoom factor \<open>0\<close> (\<open>deltaY = 500\<close>).  Then every listener
  and effect yields finite numbers, and the matrix accumulated on the context by the
  \<open>translate\<close> and \<open>scale\<close> calls is the camera variant's transform (scale by \<open>z\<close>,
  translate by \<open>(x, y)\<close>) of the camera \<open>{x: -viewportTopLeft.x, y: -viewportTopLeft.y,
  z: scale}\<close> read off the hand-tracked state, applied on top of the scale by
  \<open>devicePixelRatio\<close> that \<open>reset\<close> installed; for the ratio \<open>1\<close> it is exactly the
  transform recomputed from scratch, \<open>draw\<close>.
\<close>

theorem incremental_refines_camera:
  assumes "wheelsRendered False as" and "\<forall>a \<in> set as. zoomsBy a \<noteq> 0"
  shows "\<exists>s0 c. mount en = Some s0 \<and> exec en as (rendered s0) = Some c
           \<and> transform (current c)
               = drawOn (ctx_scale (ratio en) (ratio en) resetTransform) (cameraOf (current c))
           \<and> (ratio en = 1 \<longrightarrow> transform (current c) = draw (cameraOf (current c)))"
proof -
  from mount_consistent [of en] obtain s0 where
    m: "mount en = Some s0" and
    cons: "consistent (ctx_scale (ratio en) (ratio en) resetTransform) s0"
    by blast
  from exec_settled [OF settledFor_rendered [OF cons] assms, of en] obtain c where
    run: "exec en as (rendered s0) = Some c" and
    fin: "consistent (ctx_scale (ratio en) (ratio en) resetTransform) (current c)"
    by blast
  from fin have eq: "transform (current c)
      = drawOn (ctx_scale (ratio en) (ratio en) resetTransform) (cameraOf (current c))"
    by (simp add: consistent_def)
  have "transform (current c) = draw (cameraOf (current c))" if "ratio en = 1"
    using eq that by (simp add: draw_drawOn drawOn_def ctx_scale_def resetTransform_def)
  with m run eq show ?thesis by blast
qed

theorem incremental_refines_camera_witness:
  "\<exists>s0 c. mount exampleEnv = Some s0 \<and> exec exampleEnv exampleSchedule (rendered s0) = Some c
     \<and> transform (current c) = draw (cameraOf (current c))"
proof -
  have "wheelsRendered False exampleSchedule"
    by (simp add: exampleSchedule_def)
  moreover have "\<forall>a \<in> set exampleSchedule. zoomsBy a \<noteq> 0"
    by (simp add: exampleSchedule_def exampleWheel_def ZOOM_SENSITIVITY_def)
  moreover have "ratio exampleEnv = 1"
    by (simp add: exampleEnv_def)
  ultimately show ?thesis
    using incremental_refines_camera [of exampleSchedule exampleEnv] by blast
qed

text \<open>
  C9 as stated fails.  Two wheel events that reach the same listener before React renders
  again both scale the context, from the closure's \<open>scale = 1\<close> and \<open>viewportTopLeft\<close>,
  while \<open>setScale(scale * zoom)\<close> stores \<open>0.5\<close> twice: the matrix ends with the factor
  \<open>0.25\<close> and the translation \<open>(75, 37.5)\<close>, the transform recomputed from the state has
  \<open>0.5\<close> and \<open>(50, 25)\<close>.  And with \<open>devicePixelRatio = 2\<close> the matrix after mounting is
  the scale by \<open>2\<close>, not the identity that the identity camera gives.
\<close>

theorem incremental_drift_counterexample:
  "map_option (transform \<circ> current) (exec exampleEnv staleSchedule (rendered mountedState))
     = Some \<lparr>m11 = 1 / 4, m12 = 0, m21 = 0, m22 = 1 / 4, m41 = 75, m42 = 75 / 2\<rparr>
   \<and> map_option (draw \<circ> cameraOf \<circ> current)
       (exec exampleEnv staleSchedule (rendered mountedState))
     = Some \<lparr>m11 = 1 / 2, m12 = 0, m21 = 0, m22 = 1 / 2, m41 = 50, m42 = 25\<rparr>
   \<and> map_option transform (mount (exampleEnv\<lparr>ratio := 2\<rparr>))
     = Some \<lparr>m11 = 2, m12 = 0, m21 = 0, m22 = 2, m41 = 0, m42 = 0\<rparr>
   \<and> map_option (draw \<circ> cameraOf) (mount (exampleEnv\<lparr>ratio := 2\<rparr>))
     = Some \<lparr>m11 = 1, m12 = 0, m21 = 0, m22 = 1, m41 = 0, m42 = 0\<rparr>"
  by (simp add: staleSchedule_def exampleWheel_def rendered_def subscribe_def render_def
        handleWheelIn_def handleUpdateMouse_def ZOOM_SENSITIVITY_def draw_matrix cameraOf_def
        mount_def initialState_def example_simps)

text \<open>
  How the two models of an event relate: an input followed at once by a render is \<open>step\<close>.
\<close>

lemma offsetEffect_handleUpdateMouse:
  "offsetEffect (handleUpdateMouse en p s) = map_option (handleUpdateMouse en p) (offsetEffect s)"
  by (simp add: offsetEffect_def handleUpdateMouse_def Let_def scalePoint_def jsdiv_def)

lemma handleUpdateMouse_fields:
  "hasContext (handleUpdateMouse en p s) = hasContext s"
  "scale (handleUpdateMouse en p s) = scale s"
  by (simp_all add: handleUpdateMouse_def Let_def)

lemma input_render_step:
  "(input en e (rendered s) \<bind> render) = map_option rendered (step en e s)"
proof (cases e)
  case (MouseDown p)
  then show ?thesis
    by (simp add: render_def rendered_def subscribe_def startPan_def)
next
  case (DocMouseMove p)
  then show ?thesis
    by (cases "offsetEffect (mouseMove p s)")
       (auto simp add: render_def rendered_def subscribe_def mouseMove_def Let_def)
next
  case DocMouseUp
  then show ?thesis
    by (simp add: render_def rendered_def subscribe_def mouseUp_def)
next
  case (CanvasMouseMove p)
  then show ?thesis
    by (simp add: render_def rendered_def subscribe_def handleUpdateMouse_def Let_def)
next
  case (Wheel w)
  let ?q = "\<lparr>x = clientX w, y = clientY w\<rparr>"
  show ?thesis
  proof (cases "Canvas_handleWheel w s")
    case None
    then have "handleWheelIn (wheelListener (rendered s)) w (current (rendered s)) = None"
      by (simp add: rendered_def Canvas_handleWheel_subscribe)
    with Wheel None show ?thesis by simp
  next
    case (Some s1)
    have same: "hasContext s1 = hasContext s"
      using Some by (auto simp add: Canvas_handleWheel_def Let_def split: if_splits bind_splits)
    from Some have "handleWheelIn (wheelListener (rendered s)) w (current (rendered s)) = Some s1"
      by (simp add: rendered_def Canvas_handleWheel_subscribe)
    with Wheel have inp:
      "input en e (rendered s) = Some ((rendered s)\<lparr>current := handleUpdateMouse en ?q s1\<rparr>)"
      by simp
    have ren: "render ((rendered s)\<lparr>current := handleUpdateMouse en ?q s1\<rparr>)
                 = map_option (\<lambda>s2. rendered (handleUpdateMouse en ?q s2))
                     (if scale s1 \<noteq> scale s then offsetEffect s1 else Some s1)"
      using same
      by (cases "offsetEffect s1")
         (simp_all add: render_def rendered_def subscribe_def offsetEffect_handleUpdateMouse
            handleUpdateMouse_fields Let_def)
    have "step en e s
            = map_option (handleUpdateMouse en ?q)
                (if scale s1 \<noteq> scale s then offsetEffect s1 else Some s1)"
      using Wheel Some by (cases "offsetEffect s1") simp_all
    with inp ren show ?thesis
      by (simp add: option.map_comp comp_def)
  qed
qed

text \<open>
  How the camera read off the state moves.  A wheel event handled by a fresh listener is
  the camera variant's \<open>zoomCamera\<close> at \<open>mousePos\<close> with \<open>dz = deltaY / 500\<close>.  A drag
  from \<open>lastMousePos\<close> to \<open>p\<close> adds \<open>(p - lastMousePos) / scale\<close> to the camera's offset:
  the content follows the pointer, where the camera variant's \<open>panCamera\<close> subtracts its
  delta.
\<close>

lemma wheel_is_zoomCamera:
  assumes "hasContext s" and "scale s \<noteq> 0" and "1 - deltaY e / ZOOM_SENSITIVITY \<noteq> 0"
  shows "\<exists>s'. Canvas_handleWheel e s = Some s'
           \<and> zoomCamera (cameraOf s) (mousePos s) (deltaY e / ZOOM_SENSITIVITY)
               = Some (cameraOf s')"
proof -
  define zoom where "zoom = 1 - deltaY e / ZOOM_SENSITIVITY"
  with assms(3) have zoom_nz: "zoom \<noteq> 0" by simp
  note nz = assms(2)
  define new where
    "new = \<lparr>x = x (viewportTopLeft s) + x (mousePos s) / scale s * (1 - 1 / zoom),
            y = y (viewportTopLeft s) + y (mousePos s) / scale s * (1 - 1 / zoom)\<rparr>"
  define s' where
    "s' = s\<lparr>transform := ctx_translate (- x new) (- y new)
                (ctx_scale zoom zoom
                   (ctx_translate (x (viewportTopLeft s)) (y (viewportTopLeft s)) (transform s))),
             viewportTopLeft := new, scale := scale s * zoom, isReset := False\<rparr>"
  have handler: "Canvas_handleWheel e s = Some s'"
    using assms(1) nz zoom_nz
    by (simp add: Canvas_handleWheel_def Let_def zoom_def [symmetric] addPoints_def
          new_def s'_def)
  have cam_s': "cameraOf s' = \<lparr>x = - x new, y = - y new, z = scale s * zoom\<rparr>"
    by (simp add: cameraOf_def s'_def)
  have new_scale: "scale s - deltaY e / ZOOM_SENSITIVITY * scale s = scale s * zoom"
    by (simp add: zoom_def algebra_simps)
  have prod_nz: "scale s * zoom \<noteq> 0"
    using nz zoom_nz by simp
  have zc: "z (cameraOf s) = scale s"
    and xc: "x (cameraOf s) = - x (viewportTopLeft s)"
    and yc: "y (cameraOf s) = - y (viewportTopLeft s)"
    by (simp_all add: cameraOf_def)
  have old_nz: "z (cameraOf s) \<noteq> 0"
    using nz by (simp add: zc)
  have new_nz: "z (cameraOf s) - deltaY e / ZOOM_SENSITIVITY * z (cameraOf s) \<noteq> 0"
    unfolding zc new_scale by (rule prod_nz)
  have "zoomCamera (cameraOf s) (mousePos s) (deltaY e / ZOOM_SENSITIVITY)
          = Some \<lparr>x = - x (viewportTopLeft s)
                        + (x (mousePos s) / (scale s * zoom) - x (mousePos s) / scale s),
                    y = - y (viewportTopLeft s)
                        + (y (mousePos s) / (scale s * zoom) - y (mousePos s) / scale s),
                    z = scale s * zoom\<rparr>"
    using zoomCamera_defined [OF old_nz new_nz, of "mousePos s"]
    unfolding zc xc yc new_scale .
  also have "\<dots> = Some (cameraOf s')"
    unfolding cam_s' using nz zoom_nz by (simp add: new_def field_simps)
  finally show ?thesis using handler by blast
qed

lemma drag_moves_camera:
  assumes "isPanning s" and "hasContext s" and "lastOffset s = offset s" and "scale s \<noteq> 0"
  shows "\<exists>s'. step en (DocMouseMove p) s = Some s'
           \<and> cameraOf s' = \<lparr>x = x (cameraOf s) + (x p - x (lastMousePos s)) / scale s,
                            y = y (cameraOf s) + (y p - y (lastMousePos s)) / scale s,
                            z = z (cameraOf s)\<rparr>"
  using assms
  by (simp add: mouseMove_def offsetEffect_def lastOffsetEffect_def scalePoint_def
        diffPoints_def addPoints_def Let_def cameraOf_def)

end
